theory Spec2Isabelle
  imports Complex_Main
begin

section \<open>Values\<close>

text \<open>
  The exceptions the modelled code can raise. \<open>NotFinite\<close> stands for a numpy result
  that is \<open>inf\<close> or \<open>nan\<close> (a division by zero of arrays): the model's numbers are the
  reals, so a computation that leaves them stops there.
\<close>

datatype error =
  AssertionError | ValueError | IndexError | TypeError | AttributeError | NameError | NotFinite

text \<open>
  Arrays of rank at most two, floats idealised as reals. \<open>Scalar\<close> is a Python number,
  \<open>Vec\<close> an array of shape \<open>[n]\<close>, and \<open>Mat c rs\<close> an array of shape \<open>[length rs, c]\<close>,
  given by its rows; the column count is kept so that an array without rows has a shape.
\<close>

datatype ndarray = Scalar real | Vec "real list" | Mat nat "real list list"

fun shape :: "ndarray \<Rightarrow> nat list" where
  "shape (Scalar x) = []"
| "shape (Vec xs) = [length xs]"
| "shape (Mat c rs) = [length rs, c]"

fun wf_ndarray :: "ndarray \<Rightarrow> bool" where
  "wf_ndarray (Mat c rs) = list_all (\<lambda>r. length r = c) rs"
| "wf_ndarray _ = True"

section \<open>Array operations (numpy)\<close>

definition ebind :: "error + 'a \<Rightarrow> ('a \<Rightarrow> error + 'b) \<Rightarrow> error + 'b" where
  "ebind m f = (case m of Inl e \<Rightarrow> Inl e | Inr x \<Rightarrow> f x)"

text \<open>Broadcasting: shapes are aligned at their last dimension; two dimensions agree
  when they are equal or one of them is 1.\<close>

definition bc_dim :: "nat \<Rightarrow> nat \<Rightarrow> nat option" where
  "bc_dim a b = (if a = b then Some a else if a = 1 then Some b else if b = 1 then Some a else None)"

fun bc_rev :: "nat list \<Rightarrow> nat list \<Rightarrow> nat list option" where
  "bc_rev [] ys = Some ys"
| "bc_rev (x # xs) [] = Some (x # xs)"
| "bc_rev (x # xs) (y # ys) =
     (case bc_dim x y of
        None \<Rightarrow> None
      | Some d \<Rightarrow> (case bc_rev xs ys of None \<Rightarrow> None | Some ds \<Rightarrow> Some (d # ds)))"

definition bc_shape :: "nat list \<Rightarrow> nat list \<Rightarrow> nat list option" where
  "bc_shape s t = map_option rev (bc_rev (rev s) (rev t))"

definition expand_list :: "nat \<Rightarrow> 'a list \<Rightarrow> 'a list" where
  "expand_list n xs = (if length xs = n then xs else replicate n (hd xs))"

text \<open>\<open>expand s a\<close> is \<open>a\<close> broadcast to the shape \<open>s\<close>, for a shape that \<open>bc_shape\<close> returned.\<close>

fun expand :: "nat list \<Rightarrow> ndarray \<Rightarrow> ndarray" where
  "expand [n] (Scalar x) = Vec (replicate n x)"
| "expand [n] (Vec xs) = Vec (expand_list n xs)"
| "expand [n, m] (Scalar x) = Mat m (replicate n (replicate m x))"
| "expand [n, m] (Vec xs) = Mat m (replicate n (expand_list m xs))"
| "expand [n, m] (Mat c rs) = Mat m (expand_list n (map (expand_list m) rs))"
| "expand s a = a"

fun zip_with :: "(real \<Rightarrow> real \<Rightarrow> real) \<Rightarrow> ndarray \<Rightarrow> ndarray \<Rightarrow> ndarray" where
  "zip_with f (Scalar x) (Scalar y) = Scalar (f x y)"
| "zip_with f (Vec xs) (Vec ys) = Vec (map2 f xs ys)"
| "zip_with f (Mat c rs) (Mat d ss) = Mat c (map2 (map2 f) rs ss)"
| "zip_with f a b = a"

text \<open>An elementwise binary operator \<open>a op b\<close>, which makes a new array.\<close>

definition np_binop :: "(real \<Rightarrow> real \<Rightarrow> real) \<Rightarrow> ndarray \<Rightarrow> ndarray \<Rightarrow> error + ndarray" where
  "np_binop f a b =
     (case bc_shape (shape a) (shape b) of
        None \<Rightarrow> Inl ValueError
      | Some s \<Rightarrow> Inr (zip_with f (expand s a) (expand s b)))"

text \<open>
  The augmented assignment \<open>a op= b\<close>. A Python number has no in-place operator, so the
  name is rebound to \<open>a op b\<close>; an array is updated in place, which requires that the
  broadcast shape is the shape of \<open>a\<close>.
\<close>

definition np_iop :: "(real \<Rightarrow> real \<Rightarrow> real) \<Rightarrow> ndarray \<Rightarrow> ndarray \<Rightarrow> error + ndarray" where
  "np_iop f a b =
     (case a of
        Scalar x \<Rightarrow> np_binop f a b
      | _ \<Rightarrow>
          (case bc_shape (shape a) (shape b) of
             None \<Rightarrow> Inl ValueError
           | Some s \<Rightarrow> if s = shape a then Inr (zip_with f a (expand s b)) else Inl ValueError))"

text \<open>A function applied to every entry, and the product \<open>s * a\<close> with a number.\<close>

fun map_nd :: "(real \<Rightarrow> real) \<Rightarrow> ndarray \<Rightarrow> ndarray" where
  "map_nd f (Scalar x) = Scalar (f x)"
| "map_nd f (Vec xs) = Vec (map f xs)"
| "map_nd f (Mat c rs) = Mat c (map (map f) rs)"

definition scale_nd :: "real \<Rightarrow> ndarray \<Rightarrow> ndarray" where
  "scale_nd s a = map_nd (\<lambda>x. s * x) a"

fun emap :: "('a \<Rightarrow> error + 'b) \<Rightarrow> 'a list \<Rightarrow> error + 'b list" where
  "emap f [] = Inr []"
| "emap f (x # xs) = ebind (f x) (\<lambda>y. ebind (emap f xs) (\<lambda>ys. Inr (y # ys)))"

text \<open>A function that can fail, applied to every entry.\<close>

fun emap_nd :: "(real \<Rightarrow> error + real) \<Rightarrow> ndarray \<Rightarrow> error + ndarray" where
  "emap_nd f (Scalar x) = ebind (f x) (\<lambda>y. Inr (Scalar y))"
| "emap_nd f (Vec xs) = ebind (emap f xs) (\<lambda>ys. Inr (Vec ys))"
| "emap_nd f (Mat c rs) = ebind (emap (emap f) rs) (\<lambda>ss. Inr (Mat c ss))"

definition dot :: "real list \<Rightarrow> real list \<Rightarrow> real" where
  "dot xs ys = sum_list (map2 (*) xs ys)"

definition column :: "nat \<Rightarrow> real list list \<Rightarrow> real list" where
  "column j rs = map (\<lambda>r. r ! j) rs"

definition columns :: "nat \<Rightarrow> real list list \<Rightarrow> real list list" where
  "columns c rs = map (\<lambda>j. column j rs) [0..<c]"

text \<open>The attribute \<open>.T\<close>.\<close>

fun np_transpose :: "ndarray \<Rightarrow> ndarray" where
  "np_transpose (Mat c rs) = Mat (length rs) (columns c rs)"
| "np_transpose a = a"

text \<open>The operator \<open>@\<close>.\<close>

fun matmul :: "ndarray \<Rightarrow> ndarray \<Rightarrow> error + ndarray" where
  "matmul (Mat k rs) (Mat c ss) =
     (if k = length ss then Inr (Mat c (map (\<lambda>r. map (dot r) (columns c ss)) rs)) else Inl ValueError)"
| "matmul (Mat k rs) (Vec ys) =
     (if k = length ys then Inr (Vec (map (\<lambda>r. dot r ys) rs)) else Inl ValueError)"
| "matmul (Vec xs) (Mat c ss) =
     (if length xs = length ss then Inr (Vec (map (dot xs) (columns c ss))) else Inl ValueError)"
| "matmul (Vec xs) (Vec ys) =
     (if length xs = length ys then Inr (Scalar (dot xs ys)) else Inl ValueError)"
| "matmul a b = Inl ValueError"

text \<open>Indexing \<open>a[i]\<close> with a non-negative integer, and the slice \<open>a[1:]\<close>.\<close>

fun getitem :: "ndarray \<Rightarrow> nat \<Rightarrow> error + ndarray" where
  "getitem (Mat c rs) i = (if i < length rs then Inr (Vec (rs ! i)) else Inl IndexError)"
| "getitem (Vec xs) i = (if i < length xs then Inr (Scalar (xs ! i)) else Inl IndexError)"
| "getitem (Scalar x) i = Inl IndexError"

fun slice_from1 :: "ndarray \<Rightarrow> error + ndarray" where
  "slice_from1 (Mat c rs) = Inr (Mat c (drop 1 rs))"
| "slice_from1 (Vec xs) = Inr (Vec (drop 1 xs))"
| "slice_from1 (Scalar x) = Inl IndexError"

text \<open>\<open>np.sum(a, axis=0)\<close>.\<close>

fun sum_axis0 :: "ndarray \<Rightarrow> error + ndarray" where
  "sum_axis0 (Mat c rs) = Inr (Vec (map (\<lambda>j. sum_list (column j rs)) [0..<c]))"
| "sum_axis0 (Vec xs) = Inr (Scalar (sum_list xs))"
| "sum_axis0 (Scalar x) = Inl ValueError"

text \<open>
  \<open>np.insert(a, 0, v, axis=0)\<close> for the values \<open>v\<close> that \<open>sum_axis0\<close> can return, a vector
  or a number: a row in front of a matrix (broadcast to the row's length), or entries in
  front of a vector.
\<close>

fun insert_row0 :: "ndarray \<Rightarrow> ndarray \<Rightarrow> error + ndarray" where
  "insert_row0 (Mat c rs) (Vec ys) =
     (if length ys = c \<or> length ys = 1 then Inr (Mat c (expand_list c ys # rs)) else Inl ValueError)"
| "insert_row0 (Mat c rs) (Scalar y) = Inr (Mat c (replicate c y # rs))"
| "insert_row0 (Vec xs) (Scalar y) = Inr (Vec (y # xs))"
| "insert_row0 (Vec xs) (Vec ys) = Inr (Vec (ys @ xs))"
| "insert_row0 a v = Inl ValueError"

fun flat :: "ndarray \<Rightarrow> real list" where
  "flat (Scalar x) = [x]"
| "flat (Vec xs) = xs"
| "flat (Mat c rs) = concat rs"

definition chunks :: "nat \<Rightarrow> nat \<Rightarrow> 'a list \<Rightarrow> 'a list list" where
  "chunks c n xs = map (\<lambda>i. take c (drop (i * c) xs)) [0..<n]"

text \<open>\<open>np.reshape(a, [n, -1])\<close>: the free dimension cannot be inferred when \<open>n\<close> is 0 or
  does not divide the number of entries.\<close>

definition np_reshape :: "ndarray \<Rightarrow> nat \<Rightarrow> error + ndarray" where
  "np_reshape a n =
     (let xs = flat a in
      if n = 0 then Inl ValueError
      else if length xs mod n = 0 then Inr (Mat (length xs div n) (chunks (length xs div n) n xs))
      else Inl ValueError)"

section \<open>Parameter (layers.py)\<close>

text \<open>
  \<open>class Parameter(np.ndarray)\<close>: the array, and the two attributes \<open>_grad\<close> and \<open>_dirty\<close>
  that exist only once \<open>grad\<close> has been read or written, or \<open>zero_grad\<close> called
  (\<open>None\<close> is the absent attribute). \<open>ident\<close> is the identity of the object.
\<close>

record Parameter =
  ident :: nat
  pvalue :: ndarray
  p_grad :: "ndarray option"
  p_dirty :: "bool option"

text \<open>The \<open>size\<close> argument is an integer or a list of integers.\<close>

datatype size_arg = SInt nat | SList "nat list"

text \<open>\<open>1 / np.sqrt(0)\<close> is \<open>inf\<close> in numpy, not an exception.\<close>

datatype scale_val = Finite real | Infinite

definition as_Parameter :: "nat \<Rightarrow> ndarray \<Rightarrow> Parameter" where
  "as_Parameter oid a = \<lparr>ident = oid, pvalue = a, p_grad = None, p_dirty = None\<rparr>"

definition xavier_scale :: "size_arg \<Rightarrow> error + scale_val" where
  "xavier_scale sz =
     (case (case sz of SList [] \<Rightarrow> Inl IndexError | SList (n # ns) \<Rightarrow> Inr n | SInt n \<Rightarrow> Inr n) of
        Inl e \<Rightarrow> Inl e
      | Inr len \<Rightarrow> Inr (if len = 0 then Infinite else Finite (1 / sqrt (real len))))"

text \<open>
  \<open>Parameter.__new__\<close>. The library calls \<open>np.random.normal(loc, scale, size)\<close> and
  \<open>np.full(size, value)\<close> are the arguments \<open>normal\<close> and \<open>full\<close>; \<open>oid\<close> is the identity
  of the object that is created.
\<close>

definition Parameter_new ::
  "(real \<Rightarrow> scale_val \<Rightarrow> size_arg \<Rightarrow> error + ndarray) \<Rightarrow> (size_arg \<Rightarrow> ndarray \<Rightarrow> error + ndarray) \<Rightarrow>
   nat \<Rightarrow> ndarray option \<Rightarrow> size_arg option \<Rightarrow> real \<Rightarrow> scale_val option \<Rightarrow> error + Parameter" where
  "Parameter_new normal full oid val sz mean scale =
     (case val of
        None \<Rightarrow>
          (case sz of
             None \<Rightarrow> Inl AssertionError
           | Some s \<Rightarrow>
               (case (case scale of None \<Rightarrow> xavier_scale s | Some sc \<Rightarrow> Inr sc) of
                  Inl e \<Rightarrow> Inl e
                | Inr sc \<Rightarrow>
                    (case normal mean sc s of
                       Inl e \<Rightarrow> Inl e
                     | Inr param \<Rightarrow> Inr (as_Parameter oid param))))
      | Some v \<Rightarrow>
          (case sz of
             None \<Rightarrow> Inr (as_Parameter oid v)
           | Some s \<Rightarrow>
               (case full s v of
                  Inl e \<Rightarrow> Inl e
                | Inr a \<Rightarrow> Inr (as_Parameter oid a))))"

text \<open>The property \<open>grad\<close>: the getter creates both attributes when \<open>_grad\<close> is absent.\<close>

definition Parameter_grad :: "Parameter \<Rightarrow> ndarray \<times> Parameter" where
  "Parameter_grad p =
     (case p_grad p of
        None \<Rightarrow> (Scalar 0, p\<lparr>p_grad := Some (Scalar 0), p_dirty := Some False\<rparr>)
      | Some g \<Rightarrow> (g, p))"

definition Parameter_set_grad :: "Parameter \<Rightarrow> ndarray \<Rightarrow> Parameter" where
  "Parameter_set_grad p v = p\<lparr>p_grad := Some v, p_dirty := Some True\<rparr>"

definition zero_grad :: "Parameter \<Rightarrow> Parameter" where
  "zero_grad p = p\<lparr>p_grad := Some (Scalar 0), p_dirty := Some False\<rparr>"

definition need_update :: "Parameter \<Rightarrow> error + bool" where
  "need_update p = (case p_dirty p of None \<Rightarrow> Inl AttributeError | Some d \<Rightarrow> Inr d)"

section \<open>Layer (layers.py)\<close>

text \<open>
  Modelled from the spec: the module \<open>functions\<close> (\<open>ActivationAccess\<close>, \<open>Dropout\<close>) is not
  among the sources. An activation and a dropout are operations with a forward and a
  backward function, applied after the layer's own transform; the attribute \<open>activation\<close>
  holds the activation the descriptor resolved, or \<open>None\<close>.
\<close>

record Activation =
  act_forward :: "ndarray \<Rightarrow> error + ndarray"
  act_backward :: "ndarray \<Rightarrow> error + ndarray"

record Dropout =
  drop_forward :: "ndarray \<Rightarrow> error + ndarray"
  drop_backward :: "ndarray \<Rightarrow> error + ndarray"

text \<open>
  The attributes that \<open>Layer.__init__\<close> sets (\<open>lsize\<close>, \<open>linput\<close> and \<open>loutput\<close> are \<open>size\<close>, \<open>input\<close> and \<open>output\<close>, and \<open>built\<close> is \<open>_built\<close>).
  The map \<open>parameters\<close>, kept by \<open>__setattr__\<close>, is modelled on its own further down.
\<close>

text \<open>An attribute that may not have been assigned yet: reading it then raises
  \<open>AttributeError\<close>. \<open>Layer.__init__\<close> assigns \<open>dropout\<close> last, after it has called \<open>setup\<close>.\<close>

datatype 'a attribute = Unassigned | Assigned 'a

record Layer =
  lsize :: nat
  linput :: "ndarray option"
  loutput :: "ndarray option"
  input_dim :: "nat option"
  activation :: "Activation option"
  built :: bool
  dropout :: "Dropout option attribute"

text \<open>
  \<open>Layer.__repr__\<close> reads \<open>size\<close>, \<open>activation\<close> and \<open>dropout\<close>. The text it returns is only
  printed and is not modelled: the result says whether the attributes could be read.
  \<open>RBF.__repr__\<close> calls it and appends \<open>sigma\<close>.
\<close>

definition Layer_repr :: "'a Layer_scheme \<Rightarrow> error + unit" where
  "Layer_repr L = (case dropout L of Unassigned \<Rightarrow> Inl AttributeError | Assigned d \<Rightarrow> Inr ())"

text \<open>\<open>Layer.setup\<close>, which ends with \<open>print(f"Setup {self}.")\<close>; \<open>repr\<close> is the \<open>__repr__\<close>
  of the object's class.\<close>

definition Layer_setup ::
  "('a Layer_scheme \<Rightarrow> error + unit) \<Rightarrow> 'a Layer_scheme \<Rightarrow> nat option \<Rightarrow> error + 'a Layer_scheme" where
  "Layer_setup repr L idim =
     ebind (case idim of
              None \<Rightarrow> (if input_dim L \<noteq> None then Inr L else Inl AssertionError)
            | Some d \<Rightarrow> Inr (L\<lparr>input_dim := Some d\<rparr>)) (\<lambda>L'.
     ebind (repr L') (\<lambda>u. Inr L'))"

text \<open>\<open>if self.dropout: x = self.dropout(x)\<close> and its counterpart in backward: \<open>f\<close> is the
  method of the dropout that is called.\<close>

definition through_dropout ::
  "Dropout option attribute \<Rightarrow> (Dropout \<Rightarrow> ndarray \<Rightarrow> error + ndarray) \<Rightarrow> ndarray \<Rightarrow> error + ndarray" where
  "through_dropout dr f a =
     (case dr of
        Unassigned \<Rightarrow> Inl AttributeError
      | Assigned None \<Rightarrow> Inr a
      | Assigned (Some d) \<Rightarrow> f d a)"

text \<open>
  \<open>Layer.__init__\<close>, after the subclass has set its own attributes (\<open>ext\<close>): \<open>setup\<close> is the
  subclass's method, \<open>drp\<close> the \<open>Dropout\<close> object made when the dropout probability is
  not zero. When \<open>setup\<close> is called, \<open>dropout\<close> is not assigned yet.
\<close>

definition Layer_init ::
  "('a Layer_scheme \<Rightarrow> nat option \<Rightarrow> error + 'a Layer_scheme) \<Rightarrow> 'a \<Rightarrow> nat \<Rightarrow> nat option \<Rightarrow>
   Activation option \<Rightarrow> Dropout option \<Rightarrow> error + 'a Layer_scheme" where
  "Layer_init setup ext sz idim act drp =
     (let L = \<lparr>lsize = sz, linput = None, loutput = None, input_dim = None, activation = act,
               built = False, dropout = Unassigned, \<dots> = ext\<rparr>
      in ebind (if idim \<noteq> None then setup L idim else Inr L)
           (\<lambda>L'. Inr (L'\<lparr>dropout := Assigned drp\<rparr>)))"

text \<open>\<open>Layer._wrapped_forward\<close>, which every call of \<open>layer.forward\<close> reaches; \<open>forward\<close> is
  the subclass's method.\<close>

definition wrapped_forward ::
  "('a Layer_scheme \<Rightarrow> ndarray \<Rightarrow> error + ndarray) \<Rightarrow> 'a Layer_scheme \<Rightarrow> ndarray \<Rightarrow>
   error + (ndarray \<times> 'a Layer_scheme)" where
  "wrapped_forward forward L inp =
     (let batch = (1 < length (shape inp));
          n = (if batch then hd (shape inp) else 1)
      in ebind (np_reshape inp n) (\<lambda>x.
         ebind (forward L x) (\<lambda>out.
         let L' = L\<lparr>linput := Some x, loutput := Some out\<rparr> in
         ebind (case activation L' of None \<Rightarrow> Inr out | Some a \<Rightarrow> act_forward a out) (\<lambda>o1.
         ebind (through_dropout (dropout L') drop_forward o1) (\<lambda>o2.
         ebind (if \<not> batch then getitem o2 0 else Inr o2) (\<lambda>o3.
         Inr (o3, L')))))))"

text \<open>
  \<open>Layer._wrapped_backward\<close>, which every call of \<open>layer.backward\<close> reaches; \<open>backward\<close> is
  the subclass's method and \<open>kwds\<close> the keyword \<open>pass_error\<close>, when given (it defaults
  to true in the subclasses). The result \<open>None\<close> is Python's \<open>None\<close>.
\<close>

definition wrapped_backward ::
  "('a Layer_scheme \<Rightarrow> ndarray \<Rightarrow> bool \<Rightarrow> error + (ndarray option \<times> 'a Layer_scheme)) \<Rightarrow>
   'a Layer_scheme \<Rightarrow> ndarray \<Rightarrow> bool option \<Rightarrow> error + (ndarray option \<times> 'a Layer_scheme)" where
  "wrapped_backward backward L err kwds =
     (case loutput L of
        None \<Rightarrow> Inr (None, L)
      | Some out \<Rightarrow>
          ebind (through_dropout (dropout L) drop_backward err) (\<lambda>e1.
          ebind (case activation L of
                   None \<Rightarrow> Inr e1
                 | Some a \<Rightarrow> ebind (act_backward a out) (\<lambda>d. np_iop (*) e1 d)) (\<lambda>e2.
          ebind (backward L e2 (case kwds of None \<Rightarrow> True | Some b \<Rightarrow> b)) (\<lambda>(r, L').
          Inr (r, L'\<lparr>linput := None, loutput := None\<rparr>)))))"

subsection \<open>Dense\<close>

record Dense = Layer +
  with_bias :: bool
  weights :: "Parameter option"

text \<open>\<open>Dense.setup\<close>: the weights are drawn by \<open>Parameter(size=[input_dim + with_bias, size])\<close>.\<close>

definition Dense_setup ::
  "(real \<Rightarrow> scale_val \<Rightarrow> size_arg \<Rightarrow> error + ndarray) \<Rightarrow> (size_arg \<Rightarrow> ndarray \<Rightarrow> error + ndarray) \<Rightarrow>
   nat \<Rightarrow> Dense \<Rightarrow> nat option \<Rightarrow> error + Dense" where
  "Dense_setup normal full oid L idim =
     ebind (Layer_setup Layer_repr L idim) (\<lambda>L1.
     case idim of
       None \<Rightarrow> Inl TypeError
     | Some d \<Rightarrow>
         ebind (Parameter_new normal full oid None
                  (Some (SList [d + (if with_bias L1 then 1 else 0), lsize L1])) 0 None) (\<lambda>w.
         Inr (L1\<lparr>weights := Some w\<rparr>)))"

definition Dense_init ::
  "(real \<Rightarrow> scale_val \<Rightarrow> size_arg \<Rightarrow> error + ndarray) \<Rightarrow> (size_arg \<Rightarrow> ndarray \<Rightarrow> error + ndarray) \<Rightarrow>
   nat \<Rightarrow> nat \<Rightarrow> bool \<Rightarrow> nat option \<Rightarrow> Activation option \<Rightarrow> Dropout option \<Rightarrow> error + Dense" where
  "Dense_init normal full oid sz bias idim act drp =
     Layer_init (Dense_setup normal full oid) \<lparr>with_bias = bias, weights = None\<rparr> sz idim act drp"

definition Dense_forward :: "Dense \<Rightarrow> ndarray \<Rightarrow> error + ndarray" where
  "Dense_forward L inp =
     (case weights L of
        None \<Rightarrow> Inl AttributeError
      | Some w \<Rightarrow>
          if with_bias L then
            ebind (getitem (pvalue w) 0) (\<lambda>bias.
            ebind (slice_from1 (pvalue w)) (\<lambda>ws.
            ebind (matmul inp ws) (\<lambda>m. np_binop (+) m bias)))
          else matmul inp (pvalue w))"

text \<open>The gradient of the weights that \<open>Dense.backward\<close> computes from the recorded input
  and the error, before it is accumulated.\<close>

definition Dense_gradient :: "Dense \<Rightarrow> ndarray \<Rightarrow> error + ndarray" where
  "Dense_gradient L err =
     (case linput L of
        None \<Rightarrow> Inl AttributeError
      | Some x \<Rightarrow>
          ebind (matmul (np_transpose x) err) (\<lambda>grad.
          if with_bias L then ebind (sum_axis0 err) (\<lambda>grad_b. insert_row0 grad grad_b)
          else Inr grad))"

text \<open>The statement \<open>p.grad += g\<close>: the getter, the addition, the setter.\<close>

definition Parameter_add_grad :: "Parameter \<Rightarrow> ndarray \<Rightarrow> error + Parameter" where
  "Parameter_add_grad p g =
     (case Parameter_grad p of (old, p1) \<Rightarrow>
        ebind (np_iop (+) old g) (\<lambda>new. Inr (Parameter_set_grad p1 new)))"

definition Dense_backward :: "Dense \<Rightarrow> ndarray \<Rightarrow> bool \<Rightarrow> error + (ndarray option \<times> Dense)" where
  "Dense_backward L err pass_error =
     ebind (Dense_gradient L err) (\<lambda>grad.
     case weights L of
       None \<Rightarrow> Inl AttributeError
     | Some w \<Rightarrow>
         ebind (Parameter_add_grad w grad) (\<lambda>w'.
         let L' = L\<lparr>weights := Some w'\<rparr> in
         if pass_error then
           ebind (slice_from1 (pvalue w')) (\<lambda>ws.
           ebind (matmul err (np_transpose ws)) (\<lambda>r. Inr (Some r, L')))
         else Inr (None, L')))"

subsection \<open>RBF\<close>

record RBF = Layer +
  sigma :: real
  move_centers :: bool
  centers_mean :: real
  centers_dev :: real
  step_size :: real
  update_neighbors :: bool
  nb_radius :: real
  centers :: "Parameter option"

definition RBF_repr :: "RBF \<Rightarrow> error + unit" where
  "RBF_repr L = ebind (Layer_repr L) (\<lambda>u. Inr ())"

definition RBF_setup ::
  "(real \<Rightarrow> scale_val \<Rightarrow> size_arg \<Rightarrow> error + ndarray) \<Rightarrow> (size_arg \<Rightarrow> ndarray \<Rightarrow> error + ndarray) \<Rightarrow>
   nat \<Rightarrow> RBF \<Rightarrow> nat option \<Rightarrow> error + RBF" where
  "RBF_setup normal full oid L idim =
     ebind (Layer_setup RBF_repr L idim) (\<lambda>L1.
     case idim of
       None \<Rightarrow> Inl TypeError
     | Some d \<Rightarrow>
         ebind (Parameter_new normal full oid None (Some (SList [lsize L1, d]))
                  (centers_mean L1) (Some (Finite (centers_dev L1)))) (\<lambda>c.
         Inr (L1\<lparr>centers := Some c\<rparr>)))"

definition RBF_init ::
  "(real \<Rightarrow> scale_val \<Rightarrow> size_arg \<Rightarrow> error + ndarray) \<Rightarrow> (size_arg \<Rightarrow> ndarray \<Rightarrow> error + ndarray) \<Rightarrow>
   nat \<Rightarrow> nat \<Rightarrow> real \<Rightarrow> bool \<Rightarrow> real \<Rightarrow> real \<Rightarrow> real \<Rightarrow> bool \<Rightarrow> real \<Rightarrow>
   nat option \<Rightarrow> Activation option \<Rightarrow> Dropout option \<Rightarrow> error + RBF" where
  "RBF_init normal full oid sz sig mv cmean cdev step upd radius idim act drp =
     Layer_init (RBF_setup normal full oid)
       \<lparr>sigma = sig, move_centers = mv, centers_mean = cmean, centers_dev = cdev,
        step_size = step, update_neighbors = upd, nb_radius = radius, centers = None\<rparr>
       sz idim act drp"

text \<open>\<open>np.sum(np.abs(a), axis=-1)\<close>.\<close>

fun sum_abs_last :: "ndarray \<Rightarrow> error + ndarray" where
  "sum_abs_last (Mat c rs) = Inr (Vec (map (\<lambda>r. sum_list (map abs r)) rs))"
| "sum_abs_last (Vec xs) = Inr (Scalar (sum_list (map abs xs)))"
| "sum_abs_last (Scalar x) = Inl ValueError"

definition distance :: "ndarray \<Rightarrow> ndarray \<Rightarrow> error + ndarray" where
  "distance x y = ebind (np_binop (-) x y) sum_abs_last"

text \<open>One entry of \<open>np.exp(-d**2 / (2 * sigma**2))\<close>: with \<open>sigma = 0\<close> numpy divides by
  zero, which gives \<open>exp(-inf) = 0\<close> for a distance that is not zero and \<open>nan\<close> otherwise.\<close>

definition gauss :: "real \<Rightarrow> real \<Rightarrow> error + real" where
  "gauss sig d =
     (if 2 * sig ^ 2 = 0 then (if d = 0 then Inl NotFinite else Inr 0)
      else Inr (exp (- (d ^ 2) / (2 * sig ^ 2))))"

definition gaussian_rbf :: "real \<Rightarrow> ndarray \<Rightarrow> ndarray \<Rightarrow> error + ndarray" where
  "gaussian_rbf sig x mu = ebind (distance x mu) (emap_nd (gauss sig))"

text \<open>
  \<open>RBF.forward\<close>: \<open>input[:, None]\<close> puts an axis of length 1 after the first one. For a
  matrix the result has rank three, so it is computed slice by slice: the slice of the
  input row \<open>x\<close> is the matrix with the single row \<open>x\<close>, and its activations are one row
  of the output, with one entry for each center.
\<close>

definition n_centers :: "ndarray \<Rightarrow> nat" where
  "n_centers mu = (case mu of Mat d cs \<Rightarrow> length cs | _ \<Rightarrow> 1)"

definition RBF_forward :: "RBF \<Rightarrow> ndarray \<Rightarrow> error + ndarray" where
  "RBF_forward L inp =
     (case inp of
        Scalar x \<Rightarrow> Inl IndexError
      | Vec xs \<Rightarrow>
          (case centers L of
             None \<Rightarrow> Inl AttributeError
           | Some cp \<Rightarrow> gaussian_rbf (sigma L) (Mat 1 (map (\<lambda>x. [x]) xs)) (pvalue cp))
      | Mat d xs \<Rightarrow>
          (case centers L of
             None \<Rightarrow> Inl AttributeError
           | Some cp \<Rightarrow>
               ebind (emap (\<lambda>x. ebind (gaussian_rbf (sigma L) (Mat d [x]) (pvalue cp))
                                   (\<lambda>a. Inr (flat a))) xs) (\<lambda>rs.
               Inr (Mat (n_centers (pvalue cp)) rs))))"

text \<open>\<open>np.argmax\<close> of one row, the first index of a greatest entry, and
  \<open>np.argmax(a, axis=1)\<close>, which fails on rows without entries and on an array that has
  no second axis.\<close>

fun argmax :: "real list \<Rightarrow> nat" where
  "argmax [] = 0"
| "argmax [x] = 0"
| "argmax (x # y # ys) = (let j = argmax (y # ys) in if (y # ys) ! j \<le> x then 0 else Suc j)"

definition argmax_axis1 :: "ndarray option \<Rightarrow> error + nat list" where
  "argmax_axis1 a =
     (case a of
        Some (Mat c rs) \<Rightarrow> if c = 0 then Inl ValueError else Inr (map argmax rs)
      | _ \<Rightarrow> Inl ValueError)"

text \<open>The assignment \<open>a[k] = v\<close>.\<close>

fun setitem :: "ndarray \<Rightarrow> nat \<Rightarrow> ndarray \<Rightarrow> error + ndarray" where
  "setitem (Mat c rs) k (Vec v) =
     (if length rs \<le> k then Inl IndexError
      else if length v = c \<or> length v = 1 then Inr (Mat c (rs[k := expand_list c v]))
      else Inl ValueError)"
| "setitem (Mat c rs) k (Scalar x) =
     (if length rs \<le> k then Inl IndexError else Inr (Mat c (rs[k := replicate c x])))"
| "setitem (Mat c rs) k (Mat c' rs') =
     (if length rs \<le> k then Inl IndexError
      else if length rs' = 1 \<and> (c' = c \<or> c' = 1) then Inr (Mat c (rs[k := expand_list c (hd rs')]))
      else Inl ValueError)"
| "setitem (Vec xs) k (Scalar x) =
     (if length xs \<le> k then Inl IndexError else Inr (Vec (xs[k := x])))"
| "setitem (Vec xs) k (Vec v) =
     (if length xs \<le> k then Inl IndexError
      else if length v = 1 then Inr (Vec (xs[k := hd v]))
      else Inl ValueError)"
| "setitem (Vec xs) k (Mat c' rs') =
     (if length xs \<le> k then Inl IndexError
      else if length rs' = 1 \<and> c' = 1 then Inr (Vec (xs[k := hd (hd rs')]))
      else Inl ValueError)"
| "setitem (Scalar x) k v = Inl IndexError"

text \<open>The body of the inner loop: \<open>delta = input[i] - centers[k]\<close> and
  \<open>centers[k] += step_size * delta\<close> (read the row, add in place, write it back).\<close>

definition move_center :: "real \<Rightarrow> ndarray \<Rightarrow> ndarray \<Rightarrow> nat \<Rightarrow> error + ndarray" where
  "move_center step xi cen k =
     ebind (getitem cen k) (\<lambda>ck.
     ebind (np_binop (-) xi ck) (\<lambda>delta.
     ebind (np_iop (+) ck (scale_nd step delta)) (\<lambda>new.
     setitem cen k new)))"

fun move_centers_loop :: "real \<Rightarrow> ndarray \<Rightarrow> nat list \<Rightarrow> ndarray \<Rightarrow> error + ndarray" where
  "move_centers_loop step xi [] cen = Inr cen"
| "move_centers_loop step xi (k # ks) cen =
     ebind (move_center step xi cen k) (move_centers_loop step xi ks)"

text \<open>
  The set \<open>nodes_to_update\<close> for the input row \<open>i\<close> with winner \<open>j\<close>, as a list without
  repetitions: \<open>{j}\<close>, and with \<open>update_neighbors\<close> also every \<open>k\<close> of \<open>range(self.size)\<close>
  whose recorded activation is within \<open>nb_radius\<close> of the winner's. Reading
  \<open>output[i, k]\<close> fails for a \<open>k\<close> that is not a column of the output.
\<close>

definition nodes_to_update :: "RBF \<Rightarrow> nat \<Rightarrow> real list \<Rightarrow> nat \<Rightarrow> error + nat list" where
  "nodes_to_update L c row j =
     (if update_neighbors L then
        (if c < lsize L then Inl IndexError
         else Inr (List.insert j
                (filter (\<lambda>k. \<bar>row ! j - row ! k\<bar> \<le> nb_radius L) [0..<lsize L])))
      else Inr [j])"

fun winners_loop ::
  "RBF \<Rightarrow> ndarray option \<Rightarrow> nat \<Rightarrow> real list list \<Rightarrow> (nat \<times> nat) list \<Rightarrow> ndarray option \<Rightarrow>
   error + ndarray option" where
  "winners_loop L inp c rows [] cen = Inr cen"
| "winners_loop L inp c rows ((i, j) # ws) cen =
     ebind (nodes_to_update L c (rows ! i) j) (\<lambda>nodes.
     ebind (case inp of None \<Rightarrow> Inl TypeError | Some x \<Rightarrow> getitem x i) (\<lambda>xi.
     ebind (case cen of None \<Rightarrow> Inl AttributeError
            | Some a \<Rightarrow> move_centers_loop (step_size L) xi nodes a) (\<lambda>a'.
     winners_loop L inp c rows ws (Some a'))))"

text \<open>\<open>RBF.backward\<close>: the error and \<open>pass_error\<close> are not used, and the result is always
  \<open>None\<close>; the centers are written in place, the attribute \<open>grad\<close> is not touched.\<close>

definition RBF_backward :: "RBF \<Rightarrow> ndarray \<Rightarrow> bool \<Rightarrow> error + (ndarray option \<times> RBF)" where
  "RBF_backward L err pass_error =
     (if \<not> move_centers L then Inr (None, L)
      else
        ebind (argmax_axis1 (loutput L)) (\<lambda>winners.
        case loutput L of
          Some (Mat c rows) \<Rightarrow>
            ebind (winners_loop L (linput L) c rows (zip [0..<length winners] winners)
                     (map_option pvalue (centers L))) (\<lambda>cen.
            Inr (None, L\<lparr>centers := (case (centers L, cen) of
                                        (Some cp, Some a) \<Rightarrow> Some (cp\<lparr>pvalue := a\<rparr>)
                                      | _ \<Rightarrow> centers L)\<rparr>))
        | _ \<Rightarrow> Inl ValueError))"

subsection \<open>Attribute assignment\<close>













subsection \<open>Comparison and hashing of a Parameter\<close>

text \<open>
  \<open>class Parameter(np.ndarray)\<close> defines \<open>__new__\<close>, \<open>grad\<close>, \<open>zero_grad\<close> and \<open>need_update\<close>,
  and neither \<open>__eq__\<close> nor \<open>__hash__\<close>: both are looked up in the base classes. numpy's
  \<open>ndarray\<close> compares elementwise and sets \<open>__hash__\<close> to \<open>None\<close>; \<open>object\<close> compares and
  hashes by identity.
\<close>

datatype pyclass = Class_object | Class_ndarray | Class_Parameter

datatype eq_method = Eq_identity | Eq_elementwise

datatype hash_method = Hash_identity | Hash_None

text \<open>The method resolution order of a class: the class, then its base classes.\<close>

fun mro :: "pyclass \<Rightarrow> pyclass list" where
  "mro Class_Parameter = [Class_Parameter, Class_ndarray, Class_object]"
| "mro Class_ndarray = [Class_ndarray, Class_object]"
| "mro Class_object = [Class_object]"

fun defines_eq :: "pyclass \<Rightarrow> eq_method option" where
  "defines_eq Class_Parameter = None"
| "defines_eq Class_ndarray = Some Eq_elementwise"
| "defines_eq Class_object = Some Eq_identity"

fun defines_hash :: "pyclass \<Rightarrow> hash_method option" where
  "defines_hash Class_Parameter = None"
| "defines_hash Class_ndarray = Some Hash_None"
| "defines_hash Class_object = Some Hash_identity"

text \<open>Attribute lookup: the first class of the order that defines the attribute.\<close>

fun lookup_method :: "(pyclass \<Rightarrow> 'm option) \<Rightarrow> pyclass list \<Rightarrow> 'm option" where
  "lookup_method defines [] = None"
| "lookup_method defines (c # cs) =
     (case defines c of Some m \<Rightarrow> Some m | None \<Rightarrow> lookup_method defines cs)"

text \<open>\<open>p == q\<close>: the array of truth values (1 is true) of the elementwise comparison, or the
  single truth value of the comparison of the identities.\<close>

definition Parameter_eq :: "Parameter \<Rightarrow> Parameter \<Rightarrow> error + ndarray" where
  "Parameter_eq p q =
     (case lookup_method defines_eq (mro Class_Parameter) of
        None \<Rightarrow> Inl AttributeError
      | Some Eq_identity \<Rightarrow> Inr (Scalar (if ident p = ident q then 1 else 0))
      | Some Eq_elementwise \<Rightarrow> np_binop (\<lambda>x y. if x = y then 1 else 0) (pvalue p) (pvalue q))"

text \<open>\<open>hash(p)\<close>: a class whose \<open>__hash__\<close> is \<open>None\<close> is unhashable.\<close>

definition Parameter_hash :: "Parameter \<Rightarrow> error + nat" where
  "Parameter_hash p =
     (case lookup_method defines_hash (mro Class_Parameter) of
        None \<Rightarrow> Inl AttributeError
      | Some Hash_identity \<Rightarrow> Inr (ident p)
      | Some Hash_None \<Rightarrow> Inl TypeError)"

text \<open>\<open>d[p] = v\<close> and \<open>p in d\<close> for a dictionary \<open>d\<close>, which hashes the key first; the
  entries are found by the hash of their keys.\<close>

definition dict_setitem :: "(nat \<Rightarrow> 'v option) \<Rightarrow> Parameter \<Rightarrow> 'v \<Rightarrow> error + (nat \<Rightarrow> 'v option)" where
  "dict_setitem d p v = ebind (Parameter_hash p) (\<lambda>h. Inr (d(h \<mapsto> v)))"

definition dict_contains :: "(nat \<Rightarrow> 'v option) \<Rightarrow> Parameter \<Rightarrow> error + bool" where
  "dict_contains d p = ebind (Parameter_hash p) (\<lambda>h. Inr (d h \<noteq> None))"

section \<open>Optimizers (toych/optim.py)\<close>

text \<open>
  Modelled from the spec: \<open>toych/core.py\<close>, which defines the class \<open>Param\<close> of the
  optimizers, is not among the sources. A \<open>Param\<close> is an array with an identity, which
  keys the optimizers' dictionaries, and an accumulated gradient that is present
  (\<open>has_grad\<close>) until \<open>del_grad\<close> clears it after the optimizer step.
\<close>

record Param =
  pid :: nat
  pval :: ndarray
  pgrad :: "ndarray option"



text \<open>The attribute \<open>reg\<close>: a function, a string, or something else that is true.\<close>

datatype regularizer = RegFun "ndarray \<Rightarrow> error + ndarray" | RegStr string | RegOther

record Optimizer =
  lr :: real
  reg :: "regularizer option"
  lamb :: real
  grad_lim :: "real option"








subsection \<open>SGD\<close>

record SGD = Optimizer +
  mom :: real
  old_delta :: "nat \<Rightarrow> ndarray option"

definition SGD_update :: "SGD \<Rightarrow> Param \<Rightarrow> error + (SGD \<times> Param)" where
  "SGD_update opt p =
     (case pgrad p of
        None \<Rightarrow> Inl AttributeError
      | Some g \<Rightarrow>
          ebind (case old_delta opt (pid p) of
                   Some od \<Rightarrow> np_binop (-) (scale_nd (mom opt) od) (scale_nd (1 - mom opt) g)
                 | None \<Rightarrow> Inr (map_nd uminus g)) (\<lambda>delta.
          ebind (np_iop (+) (pval p) (scale_nd (lr opt) delta)) (\<lambda>v.
          Inr (opt\<lparr>old_delta := (old_delta opt)(pid p \<mapsto> delta)\<rparr>, p\<lparr>pval := v\<rparr>))))"

subsection \<open>Adam\<close>









section \<open>Scenarios\<close>

text \<open>One forward call of a Dense layer followed by one backward call: the output, the
  error passed upstream and the layer afterwards.\<close>

definition forward_backward ::
  "Dense \<Rightarrow> ndarray \<Rightarrow> ndarray \<Rightarrow> bool option \<Rightarrow> error + (ndarray \<times> ndarray option \<times> Dense)" where
  "forward_backward L x e kwds =
     ebind (wrapped_forward Dense_forward L x) (\<lambda>(y, L1).
     ebind (wrapped_backward Dense_backward L1 e kwds) (\<lambda>(r, L2). Inr (y, r, L2)))"

text \<open>A built Dense layer with bias, \<open>input_dim = 3\<close> and \<open>size = 2\<close>, without activation
  and dropout, that holds the weights \<open>W\<close> and the recorded gradient \<open>g\<close>.\<close>

definition dense_example :: "real list list \<Rightarrow> ndarray option \<Rightarrow> Dense" where
  "dense_example W g =
     \<lparr>lsize = 2, linput = None, loutput = None, input_dim = Some 3, activation = None,
      built = False, dropout = Assigned None, with_bias = True,
      weights = Some \<lparr>ident = 0, pvalue = Mat 2 W, p_grad = g,
                      p_dirty = map_option (\<lambda>a. True) g\<rparr>\<rparr>"

text \<open>The same with \<open>size = 1\<close>.\<close>

definition dense_single :: "real list list \<Rightarrow> ndarray option \<Rightarrow> Dense" where
  "dense_single W g =
     \<lparr>lsize = 1, linput = None, loutput = None, input_dim = Some 3, activation = None,
      built = False, dropout = Assigned None, with_bias = True,
      weights = Some \<lparr>ident = 0, pvalue = Mat 1 W, p_grad = g,
                      p_dirty = map_option (\<lambda>a. True) g\<rparr>\<rparr>"

definition outer :: "real list \<Rightarrow> real list \<Rightarrow> real list list" where
  "outer xs ys = map (\<lambda>x. map (\<lambda>y. x * y) ys) xs"

text \<open>
  An activation or a dropout whose forward and backward functions return, for every array,
  an array of the same shape. The functions themselves are in a module that is not among
  the sources.
\<close>

definition shape_preserving :: "(ndarray \<Rightarrow> error + ndarray) \<Rightarrow> bool" where
  "shape_preserving f = (\<forall>a. wf_ndarray a \<longrightarrow> (\<exists>b. f a = Inr b \<and> wf_ndarray b \<and> shape b = shape a))"

definition post_shape_preserving :: "'a Layer_scheme \<Rightarrow> bool" where
  "post_shape_preserving L =
     ((case activation L of None \<Rightarrow> True
       | Some a \<Rightarrow> shape_preserving (act_forward a) \<and> shape_preserving (act_backward a))
      \<and> (case dropout L of
           Unassigned \<Rightarrow> False
         | Assigned None \<Rightarrow> True
         | Assigned (Some d) \<Rightarrow> shape_preserving (drop_forward d) \<and> shape_preserving (drop_backward d)))"

text \<open>
  A built Dense layer with input dimension \<open>d\<close> and output size \<open>s\<close>, as \<open>setup\<close> leaves
  it: the weights are a matrix of shape \<open>[d + with_bias, s]\<close>, and the gradient recorded
  for them, if there is one, is a number or has the shape of the weights.
\<close>

definition Dense_built :: "Dense \<Rightarrow> nat \<Rightarrow> nat \<Rightarrow> bool" where
  "Dense_built L d s =
     (lsize L = s \<and> input_dim L = Some d
      \<and> (case weights L of
           None \<Rightarrow> False
         | Some w \<Rightarrow>
             wf_ndarray (pvalue w)
             \<and> shape (pvalue w) = [d + (if with_bias L then 1 else 0), s]
             \<and> (case p_grad w of
                  None \<Rightarrow> True
                | Some (Scalar x) \<Rightarrow> True
                | Some g \<Rightarrow> wf_ndarray g \<and> shape g = shape (pvalue w))))"


section \<open>Properties of Parameter\<close>

text \<open>
  C6. Creating a Parameter with neither a value nor a size raises an error and produces
  no Parameter. The error the code raises is Python's \<open>AssertionError\<close>, which is how the
  code realises the specification's invalid-argument category; it is raised whatever the
  mean, the scale and the random generator are.
\<close>

theorem Parameter_new_requires_size:
  "Parameter_new normal full oid None None mean scale = Inl AssertionError"
  by (simp add: Parameter_new_def)

text \<open>
  C7. \<open>zero_grad\<close> is idempotent: after one call the gradient reads as zero and
  \<open>need_update\<close> is false, and a second call changes nothing.
\<close>

theorem zero_grad_idempotent:
  "fst (Parameter_grad (zero_grad p)) = Scalar 0
   \<and> need_update (zero_grad p) = Inr False
   \<and> zero_grad (zero_grad p) = zero_grad p
   \<and> fst (Parameter_grad (zero_grad (zero_grad p))) = Scalar 0
   \<and> need_update (zero_grad (zero_grad p)) = Inr False"
  by (simp add: zero_grad_def Parameter_grad_def need_update_def)

section \<open>Properties of layers\<close>

lemmas array_defs = ebind_def np_binop_def np_iop_def bc_shape_def bc_dim_def expand_list_def
  dot_def column_def columns_def np_reshape_def chunks_def Let_def scale_nd_def
  upt_conv_Cons eval_nat_numeral

lemmas dense_defs = wrapped_forward_def wrapped_backward_def through_dropout_def Dense_forward_def
  Dense_backward_def Dense_gradient_def Parameter_add_grad_def Parameter_grad_def
  Parameter_set_grad_def

lemma Layer_setup_keeps:
  "Layer_setup repr L idim = Inr L' \<Longrightarrow> linput L' = linput L \<and> loutput L' = loutput L"
  by (auto simp: Layer_setup_def ebind_def split: option.splits if_splits sum.splits)

lemma Dense_setup_keeps:
  "Dense_setup normal full oid L idim = Inr L' \<Longrightarrow> linput L' = linput L \<and> loutput L' = loutput L"
  by (auto simp: Dense_setup_def ebind_def split: sum.splits option.splits dest: Layer_setup_keeps)

lemma RBF_setup_keeps:
  "RBF_setup normal full oid L idim = Inr L' \<Longrightarrow> linput L' = linput L \<and> loutput L' = loutput L"
  by (auto simp: RBF_setup_def ebind_def split: sum.splits option.splits dest: Layer_setup_keeps)

lemma Layer_init_cache:
  assumes "Layer_init setup ext sz idim act drp = Inr L"
    and "\<And>L0 L1. setup L0 idim = Inr L1 \<Longrightarrow> linput L1 = linput L0 \<and> loutput L1 = loutput L0"
  shows "linput L = None \<and> loutput L = None"
  using assms
  by (fastforce simp: Layer_init_def Let_def ebind_def split: sum.splits if_splits)

lemma Dense_init_cache:
  "Dense_init normal full oid sz bias idim act drp = Inr D \<Longrightarrow> linput D = None \<and> loutput D = None"
  unfolding Dense_init_def by (erule Layer_init_cache) (rule Dense_setup_keeps)

lemma RBF_init_cache:
  "RBF_init normal full oid sz sig mv cmean cdev step upd radius idim act drp = Inr R \<Longrightarrow>
   linput R = None \<and> loutput R = None"
  unfolding RBF_init_def by (erule Layer_init_cache) (rule RBF_setup_keeps)

text \<open>
  C3. A backward call without a matching forward call returns \<open>None\<close> and raises nothing.
  A new Dense or RBF layer has no cached output; with no cached output the wrapped
  backward of any layer returns \<open>None\<close> and leaves the layer as it is; and a backward call
  that returns leaves no cached output (and no cached input when there was an output), so
  that a second backward call right after it returns \<open>None\<close> again.
\<close>

theorem backward_without_forward:
  "(Dense_init normal full oid sz bias idim act drp = Inr D \<longrightarrow> loutput D = None)
   \<and> (RBF_init normal full oid sz sig mv cmean cdev step upd radius idim act drp = Inr R \<longrightarrow>
        loutput R = None)
   \<and> (loutput L = None \<longrightarrow> wrapped_backward backward L err kwds = Inr (None, L))
   \<and> (wrapped_backward backward L err kwds = Inr (r, L') \<longrightarrow>
        loutput L' = None \<and> (loutput L \<noteq> None \<longrightarrow> linput L' = None)
        \<and> wrapped_backward backward L' err' kwds' = Inr (None, L'))"
proof (intro conjI impI)
  assume "Dense_init normal full oid sz bias idim act drp = Inr D"
  then show "loutput D = None" by (simp add: Dense_init_cache)
next
  assume "RBF_init normal full oid sz sig mv cmean cdev step upd radius idim act drp = Inr R"
  then show "loutput R = None" by (simp add: RBF_init_cache)
next
  assume "loutput L = None"
  then show "wrapped_backward backward L err kwds = Inr (None, L)"
    by (simp add: wrapped_backward_def)
next
  assume run: "wrapped_backward backward L err kwds = Inr (r, L')"
  then show out: "loutput L' = None"
    by (auto simp: wrapped_backward_def ebind_def split: option.splits sum.splits prod.splits)
  then show "wrapped_backward backward L' err' kwds' = Inr (None, L')"
    by (simp add: wrapped_backward_def)
  show "linput L' = None" if "loutput L \<noteq> None"
    using run that
    by (auto simp: wrapped_backward_def ebind_def split: option.splits sum.splits prod.splits)
qed

lemma dense_example_forward:
  "wrapped_forward Dense_forward (dense_example [[b0, b1], [w00, w01], [w10, w11], [w20, w21]] g)
     (Mat 3 [[1, 2, 3]])
   = Inr (Mat 2 [[dot [1, 2, 3] [w00, w10, w20] + b0, dot [1, 2, 3] [w01, w11, w21] + b1]],
          (dense_example [[b0, b1], [w00, w01], [w10, w11], [w20, w21]] g)
            \<lparr>linput := Some (Mat 3 [[1, 2, 3]]),
             loutput := Some (Mat 2 [[dot [1, 2, 3] [w00, w10, w20] + b0,
                                      dot [1, 2, 3] [w01, w11, w21] + b1]])\<rparr>)"
  by (simp add: dense_defs array_defs dense_example_def)

lemma dense_example_backward_first:
  "wrapped_backward Dense_backward
     ((dense_example [[b0, b1], [w00, w01], [w10, w11], [w20, w21]] None)
        \<lparr>linput := Some (Mat 3 [[1, 2, 3]]), loutput := Some Y\<rparr>) (Mat 2 [[1, 1]]) kw
   = Inr (if kw = Some False then None
          else Some (Mat 3 [[dot [1, 1] [w00, w01], dot [1, 1] [w10, w11], dot [1, 1] [w20, w21]]]),
          dense_example [[b0, b1], [w00, w01], [w10, w11], [w20, w21]]
            (Some (Mat 2 (outer [1, 1, 2, 3] [1, 1]))))"
  by (cases kw) (simp_all add: dense_defs array_defs dense_example_def outer_def)

lemma dense_example_backward_more:
  "wrapped_backward Dense_backward
     ((dense_example [[b0, b1], [w00, w01], [w10, w11], [w20, w21]]
         (Some (Mat 2 [[g00, g01], [g10, g11], [g20, g21], [g30, g31]])))
        \<lparr>linput := Some (Mat 3 [[1, 2, 3]]), loutput := Some Y\<rparr>) (Mat 2 [[1, 1]]) kw
   = Inr (if kw = Some False then None
          else Some (Mat 3 [[dot [1, 1] [w00, w01], dot [1, 1] [w10, w11], dot [1, 1] [w20, w21]]]),
          dense_example [[b0, b1], [w00, w01], [w10, w11], [w20, w21]]
            (Some (Mat 2 (map2 (map2 (+)) [[g00, g01], [g10, g11], [g20, g21], [g30, g31]]
                           (outer [1, 1, 2, 3] [1, 1])))))"
  by (cases kw) (simp_all add: dense_defs array_defs dense_example_def outer_def)

text \<open>
  C1, as the code has it. For the Dense layer with bias, \<open>input_dim = 3\<close>, \<open>size = 2\<close> and
  the weights \<open>[[b0,b1],[w00,w01],[w10,w11],[w20,w21]]\<close>: forward on the batched row
  \<open>[1,2,3]\<close> returns \<open>[1,2,3]\<cdot>W + b\<close>; backward with the output gradient \<open>[1,1]\<close> adds to
  the gradient of the weights the matrix whose first row is the column sum of the output
  gradient and whose other rows are the transposed input times the output gradient,
  which is \<open>outer([1,1,2,3],[1,1])\<close>: the constant input 1 of the bias comes first, as the
  bias is the first row of the weights. It returns \<open>[1,1]\<cdot>W\<^sup>T\<close>, computed with the rows
  of \<open>W\<close> (not the bias row), when \<open>pass_error\<close> is true or not given, and \<open>None\<close> when it is
  false.
\<close>

theorem Dense_scenario:
  "forward_backward (dense_example [[b0, b1], [w00, w01], [w10, w11], [w20, w21]] None)
     (Mat 3 [[1, 2, 3]]) (Mat 2 [[1, 1]]) kw
   = Inr (Mat 2 [[dot [1, 2, 3] [w00, w10, w20] + b0, dot [1, 2, 3] [w01, w11, w21] + b1]],
          (if kw = Some False then None
           else Some (Mat 3 [[dot [1, 1] [w00, w01], dot [1, 1] [w10, w11], dot [1, 1] [w20, w21]]])),
          dense_example [[b0, b1], [w00, w01], [w10, w11], [w20, w21]]
            (Some (Mat 2 (outer [1, 1, 2, 3] [1, 1]))))
   \<and> forward_backward
       (dense_example [[b0, b1], [w00, w01], [w10, w11], [w20, w21]]
          (Some (Mat 2 [[g00, g01], [g10, g11], [g20, g21], [g30, g31]])))
       (Mat 3 [[1, 2, 3]]) (Mat 2 [[1, 1]]) kw
     = Inr (Mat 2 [[dot [1, 2, 3] [w00, w10, w20] + b0, dot [1, 2, 3] [w01, w11, w21] + b1]],
            (if kw = Some False then None
             else Some (Mat 3 [[dot [1, 1] [w00, w01], dot [1, 1] [w10, w11], dot [1, 1] [w20, w21]]])),
            dense_example [[b0, b1], [w00, w01], [w10, w11], [w20, w21]]
              (Some (Mat 2 (map2 (map2 (+)) [[g00, g01], [g10, g11], [g20, g21], [g30, g31]]
                             (outer [1, 1, 2, 3] [1, 1])))))"
  by (simp add: forward_backward_def ebind_def dense_example_forward
      dense_example_backward_first dense_example_backward_more)

text \<open>
  C1, as the claim words it, fails: the gradient that the scenario leaves in the weights
  is not \<open>outer([1,2,3,1],[1,1])\<close>, whose rows are those of the code's gradient in another
  order (the bias row last).
\<close>

theorem Dense_scenario_counterexample:
  "forward_backward (dense_example [[0, 0], [1, 0], [0, 1], [1, 1]] None)
     (Mat 3 [[1, 2, 3]]) (Mat 2 [[1, 1]]) (Some True)
   = Inr (Mat 2 [[4, 5]], Some (Mat 3 [[1, 1, 2]]),
          dense_example [[0, 0], [1, 0], [0, 1], [1, 1]]
            (Some (Mat 2 [[1, 1], [1, 1], [2, 2], [3, 3]])))
   \<and> Mat 2 [[1, 1], [1, 1], [2, 2], [3, 3]] \<noteq> Mat 2 (outer [1, 2, 3, 1] [1, 1])"
  by (simp add: forward_backward_def dense_defs array_defs dense_example_def outer_def)

theorem backward_without_forward_witness:
  "Dense_init (\<lambda>mean sc sz. Inr (Mat 2 [[0, 0], [1, 0], [0, 1], [1, 1]])) (\<lambda>sz v. Inr v) 0 2 True None None None
     = Inr \<lparr>lsize = 2, linput = None, loutput = None, input_dim = None, activation = None,
            built = False, dropout = Assigned None, with_bias = True, weights = None\<rparr>
   \<and> loutput \<lparr>lsize = 2, linput = None, loutput = None, input_dim = None, activation = None,
               built = False, dropout = Assigned None, with_bias = True, weights = None\<rparr> = None
   \<and> Dense_setup (\<lambda>mean sc sz. Inr (Mat 2 [[0, 0], [1, 0], [0, 1], [1, 1]])) (\<lambda>sz v. Inr v) 0
        \<lparr>lsize = 2, linput = None, loutput = None, input_dim = None, activation = None,
         built = False, dropout = Assigned None, with_bias = True, weights = None\<rparr> (Some 3)
      = Inr (dense_example [[0, 0], [1, 0], [0, 1], [1, 1]] None)
   \<and> wrapped_backward Dense_backward (dense_example [[0, 0], [1, 0], [0, 1], [1, 1]] None)
        (Mat 2 [[1, 1]]) None
      = Inr (None, dense_example [[0, 0], [1, 0], [0, 1], [1, 1]] None)
   \<and> wrapped_backward Dense_backward
        ((dense_example [[0, 0], [1, 0], [0, 1], [1, 1]] None)
           \<lparr>linput := Some (Mat 3 [[1, 2, 3]]), loutput := Some (Mat 2 [[4, 5]])\<rparr>)
        (Mat 2 [[1, 1]]) None
      = Inr (Some (Mat 3 [[1, 1, 2]]),
             dense_example [[0, 0], [1, 0], [0, 1], [1, 1]] (Some (Mat 2 [[1, 1], [1, 1], [2, 2], [3, 3]])))
   \<and> wrapped_backward Dense_backward
        (dense_example [[0, 0], [1, 0], [0, 1], [1, 1]] (Some (Mat 2 [[1, 1], [1, 1], [2, 2], [3, 3]])))
        (Mat 2 [[1, 1]]) None
      = Inr (None, dense_example [[0, 0], [1, 0], [0, 1], [1, 1]] (Some (Mat 2 [[1, 1], [1, 1], [2, 2], [3, 3]])))"
proof -
  let ?N = "\<lambda>(mean :: real) (sc :: scale_val) (sz :: size_arg).
              (Inr (Mat 2 [[0, 0], [1, 0], [0, 1], [1, 1]]) :: error + ndarray)"
  let ?F = "\<lambda>(sz :: size_arg) (v :: ndarray). (Inr v :: error + ndarray)"
  let ?U = "\<lparr>lsize = 2, linput = None, loutput = None, input_dim = None, activation = None,
             built = False, dropout = Assigned None, with_bias = True, weights = None\<rparr>"
  let ?D = "dense_example [[0, 0], [1, 0], [0, 1], [1, 1]] None"
  let ?D2 = "dense_example [[0, 0], [1, 0], [0, 1], [1, 1]] (Some (Mat 2 [[1, 1], [1, 1], [2, 2], [3, 3]]))"
  have init: "Dense_init ?N ?F 0 2 True None None None = Inr ?U"
    by (simp add: Dense_init_def Layer_init_def ebind_def)
  have stp: "Dense_setup ?N ?F 0 ?U (Some 3) = Inr ?D"
    by (simp add: Dense_setup_def Layer_setup_def Layer_repr_def Parameter_new_def
        xavier_scale_def as_Parameter_def ebind_def dense_example_def)
  have run: "wrapped_backward Dense_backward
        (?D\<lparr>linput := Some (Mat 3 [[1, 2, 3]]), loutput := Some (Mat 2 [[4, 5]])\<rparr>)
        (Mat 2 [[1, 1]]) None = Inr (Some (Mat 3 [[1, 1, 2]]), ?D2)"
    by (simp add: dense_defs array_defs dense_example_def)
  have none: "loutput ?D = None" by (simp add: dense_example_def)
  from backward_without_forward [where D = ?U and L = ?D and backward = Dense_backward
      and err = "Mat 2 [[1, 1]]" and kwds = None and normal = ?N and full = ?F and oid = 0
      and sz = 2 and bias = True and idim = None and act = None and drp = None] init none
  have a: "loutput ?U = None \<and> wrapped_backward Dense_backward ?D (Mat 2 [[1, 1]]) None = Inr (None, ?D)"
    by blast
  from backward_without_forward [where L = "?D\<lparr>linput := Some (Mat 3 [[1, 2, 3]]), loutput := Some (Mat 2 [[4, 5]])\<rparr>"
      and backward = Dense_backward and err = "Mat 2 [[1, 1]]" and kwds = None and r = "Some (Mat 3 [[1, 1, 2]])"
      and L' = ?D2 and err' = "Mat 2 [[1, 1]]" and kwds' = None] run
  have b: "wrapped_backward Dense_backward ?D2 (Mat 2 [[1, 1]]) None = Inr (None, ?D2)"
    by blast
  from init stp a run b show ?thesis by simp
qed

section \<open>Properties of arrays\<close>

lemma bc_rev_same: "bc_rev s s = Some s"
  by (induction s) (simp_all add: bc_dim_def)

lemma bc_shape_same: "bc_shape s s = Some s"
  by (simp add: bc_shape_def bc_rev_same)

lemma expand_same: "wf_ndarray a \<Longrightarrow> expand (shape a) a = a"
  by (cases a) (simp_all add: expand_list_def list_all_iff map_idI)

lemma np_binop_same_shape:
  "wf_ndarray a \<Longrightarrow> wf_ndarray b \<Longrightarrow> shape a = shape b \<Longrightarrow> np_binop f a b = Inr (zip_with f a b)"
  using expand_same [of a] expand_same [of b] by (simp add: np_binop_def bc_shape_same)

lemma np_iop_same_shape:
  "wf_ndarray a \<Longrightarrow> wf_ndarray b \<Longrightarrow> shape a = shape b \<Longrightarrow> np_iop f a b = Inr (zip_with f a b)"
  using expand_same [of b] np_binop_same_shape [of a b f]
  by (cases a) (simp_all add: np_iop_def bc_shape_same)

lemma map2_same: "map2 f xs xs = map (\<lambda>x. f x x) xs"
  by (induction xs) simp_all

lemma zip_with_same: "zip_with f a a = map_nd (\<lambda>x. f x x) a"
  by (cases a) (simp_all add: map2_same)


section \<open>Comparison, hashing and the map of parameters\<close>

text \<open>
  C9, as the code has it. A \<open>Parameter\<close> of \<open>layers.py\<close> inherits the comparison and the
  hashing of numpy's arrays: it cannot be hashed, so using it as a key of a dictionary
  (or asking whether it is a key) raises \<open>TypeError\<close>, and \<open>p == q\<close> is the elementwise
  comparison of the two values, which does not look at the identities: for two
  Parameters with the same value every entry of the result is true.
\<close>

theorem Parameter_compares_by_value:
  "Parameter_hash p = Inl TypeError
   \<and> dict_setitem d p v = Inl TypeError
   \<and> dict_contains d p = Inl TypeError
   \<and> Parameter_eq p q = np_binop (\<lambda>x y. if x = y then 1 else 0) (pvalue p) (pvalue q)
   \<and> (wf_ndarray (pvalue p) \<and> pvalue q = pvalue p \<longrightarrow>
        Parameter_eq p q = Inr (map_nd (\<lambda>x. 1) (pvalue p)))"
  by (simp add: Parameter_hash_def Parameter_eq_def dict_setitem_def dict_contains_def ebind_def
      np_binop_same_shape zip_with_same)

theorem Parameter_compares_by_value_witness:
  "wf_ndarray (pvalue \<lparr>ident = 1, pvalue = Vec [1, 2], p_grad = None, p_dirty = None\<rparr>)
   \<and> pvalue \<lparr>ident = 2, pvalue = Vec [1, 2], p_grad = None, p_dirty = None\<rparr>
       = pvalue \<lparr>ident = 1, pvalue = Vec [1, 2], p_grad = None, p_dirty = None\<rparr>
   \<and> Parameter_eq \<lparr>ident = 1, pvalue = Vec [1, 2], p_grad = None, p_dirty = None\<rparr>
        \<lparr>ident = 2, pvalue = Vec [1, 2], p_grad = None, p_dirty = None\<rparr> = Inr (Vec [1, 1])"
  using Parameter_compares_by_value [of "\<lparr>ident = 1, pvalue = Vec [1, 2], p_grad = None, p_dirty = None\<rparr>"
      Map.empty "0::nat" "\<lparr>ident = 2, pvalue = Vec [1, 2], p_grad = None, p_dirty = None\<rparr>"]
  by (simp add: array_defs)

text \<open>
  C9, as the claim words it, fails: two distinct Parameters with the value \<open>[1]\<close> compare
  equal, and a Parameter as the key of a dictionary raises \<open>TypeError\<close>.
\<close>

theorem Parameter_identity_counterexample:
  "ident \<lparr>ident = 1, pvalue = Vec [1], p_grad = None, p_dirty = None\<rparr>
     \<noteq> ident \<lparr>ident = 2, pvalue = Vec [1], p_grad = None, p_dirty = None\<rparr>
   \<and> Parameter_eq \<lparr>ident = 1, pvalue = Vec [1], p_grad = None, p_dirty = None\<rparr>
        \<lparr>ident = 2, pvalue = Vec [1], p_grad = None, p_dirty = None\<rparr> = Inr (Vec [1])
   \<and> dict_setitem Map.empty \<lparr>ident = 1, pvalue = Vec [1], p_grad = None, p_dirty = None\<rparr> (0::nat)
      = Inl TypeError"
  by (simp add: Parameter_eq_def Parameter_hash_def dict_setitem_def array_defs)











section \<open>Accumulation of the gradient\<close>

lemma ebind_Inr_iff: "(ebind m f = Inr y) = (\<exists>x. m = Inr x \<and> f x = Inr y)"
  by (cases m) (simp_all add: ebind_def)

lemma ebind_Inl [simp]: "ebind (Inl e) f = Inl e"
  by (simp add: ebind_def)

lemma ebind_Inr [simp]: "ebind (Inr x) f = f x"
  by (simp add: ebind_def)

lemma map_plus_zero [simp]: "map ((+) (0::real)) xs = xs"
  by (induction xs) simp_all

lemma length_columns [simp]: "length (columns c rs) = c"
  by (simp add: columns_def)

lemma matmul_wf: "matmul a b = Inr c \<Longrightarrow> wf_ndarray c"
  by (cases a; cases b) (auto simp: list_all_iff split: if_splits)

lemma insert_row0_wf: "wf_ndarray a \<Longrightarrow> insert_row0 a v = Inr r \<Longrightarrow> wf_ndarray r"
  by (cases a; cases v) (auto simp: expand_list_def split: if_splits)

lemma Dense_gradient_wf: "Dense_gradient L e = Inr G \<Longrightarrow> wf_ndarray G"
  by (auto simp: Dense_gradient_def ebind_Inr_iff split: option.splits if_splits
      dest: matmul_wf insert_row0_wf)

lemma map2_replicate_left:
  "length ys = n \<Longrightarrow> map2 f (replicate n x) ys = map (f x) ys"
  by (induction ys arbitrary: n) auto

lemma zero_plus_array: "wf_ndarray a \<Longrightarrow> np_iop (+) (Scalar 0) a = Inr a"
proof (cases a)
  case (Mat c rs)
  assume "wf_ndarray a"
  with Mat have rows: "\<forall>r\<in>set rs. length r = c" by (simp add: list_all_iff)
  then have "map (expand_list c) rs = rs"
    by (simp add: expand_list_def map_idI)
  moreover have "map2 (map2 (+)) (replicate (length rs) (replicate c 0)) rs = rs"
    using rows by (simp add: map2_replicate_left map_idI)
  ultimately show ?thesis using Mat
    by (simp add: np_iop_def np_binop_def bc_shape_def expand_list_def)
qed (simp_all add: np_iop_def np_binop_def bc_shape_def expand_list_def map2_replicate_left)

lemma wrapped_forward_Dense_state:
  "wrapped_forward Dense_forward L x = Inr (y, L1) \<Longrightarrow>
   \<exists>x' out. L1 = L\<lparr>linput := Some x', loutput := Some out\<rparr>"
  unfolding wrapped_forward_def Let_def ebind_Inr_iff by auto

lemma wrapped_forward_Dense_independent:
  assumes "weights L = Some w" "pvalue w' = pvalue w"
    and "wrapped_forward Dense_forward L x = Inr (y, L1)"
  shows "wrapped_forward Dense_forward (L\<lparr>linput := a, loutput := b, weights := Some w'\<rparr>) x
         = Inr (y, L1\<lparr>weights := Some w'\<rparr>)"
proof -
  have "Dense_forward (L\<lparr>linput := a, loutput := b, weights := Some w'\<rparr>) = Dense_forward L"
    using assms(1,2) by (simp add: Dense_forward_def fun_eq_iff)
  with assms(3) show ?thesis
    unfolding wrapped_forward_def Let_def ebind_Inr_iff by auto
qed

lemma wrapped_backward_Dense_iff:
  assumes "loutput L = Some out" "weights L = Some w"
  shows "(wrapped_backward Dense_backward L e kw = Inr (r, L')) =
     (\<exists>e2 G g'.
        ebind (through_dropout (dropout L) drop_backward e)
          (\<lambda>e1. case activation L of None \<Rightarrow> Inr e1
                 | Some a \<Rightarrow> ebind (act_backward a out) (\<lambda>d. np_iop (*) e1 d)) = Inr e2
      \<and> Dense_gradient L e2 = Inr G
      \<and> np_iop (+) (case p_grad w of None \<Rightarrow> Scalar 0 | Some g \<Rightarrow> g) G = Inr g'
      \<and> (if (case kw of None \<Rightarrow> True | Some b \<Rightarrow> b)
          then ebind (slice_from1 (pvalue w)) (\<lambda>ws. ebind (matmul e2 (np_transpose ws)) (\<lambda>u. Inr (Some u)))
          else Inr None) = Inr r
      \<and> L' = L\<lparr>linput := None, loutput := None,
                weights := Some (w\<lparr>p_grad := Some g', p_dirty := Some True\<rparr>)\<rparr>)"
  using assms
  by (cases "p_grad w"; cases kw; cases "dropout L"; cases "activation L")
     (auto simp: wrapped_backward_def Dense_backward_def Parameter_add_grad_def Parameter_grad_def
        Parameter_set_grad_def Let_def ebind_Inr_iff)


lemma forward_backward_Dense_fresh:
  assumes w: "weights L = Some w" and fresh: "fst (Parameter_grad w) = Scalar 0"
    and run: "forward_backward L x e kw = Inr (y, r, L')"
  obtains La out e' G where
    "wrapped_forward Dense_forward L x = Inr (y, La)"
    "loutput La = Some out" "weights La = Some w"
    "ebind (through_dropout (dropout La) drop_backward e)
          (\<lambda>e1. case activation La of None \<Rightarrow> Inr e1
                 | Some a \<Rightarrow> ebind (act_backward a out) (\<lambda>d. np_iop (*) e1 d)) = Inr e'"
    "Dense_gradient La e' = Inr G"
    "(if (case kw of None \<Rightarrow> True | Some b \<Rightarrow> b)
          then ebind (slice_from1 (pvalue w)) (\<lambda>ws. ebind (matmul e' (np_transpose ws)) (\<lambda>u. Inr (Some u)))
          else Inr None) = Inr r"
    "L' = L\<lparr>linput := None, loutput := None, weights := Some (w\<lparr>p_grad := Some G, p_dirty := Some True\<rparr>)\<rparr>"
proof -
  from run obtain La where f: "wrapped_forward Dense_forward L x = Inr (y, La)"
    and b: "wrapped_backward Dense_backward La e kw = Inr (r, L')"
    by (auto simp: forward_backward_def ebind_Inr_iff)
  from wrapped_forward_Dense_state [OF f] obtain x' out
    where La: "La = L\<lparr>linput := Some x', loutput := Some out\<rparr>" by blast
  then have lo: "loutput La = Some out" and lw: "weights La = Some w" using w by simp_all
  have zero: "(case p_grad w of None \<Rightarrow> Scalar 0 | Some g \<Rightarrow> g) = Scalar 0"
    using fresh by (simp add: Parameter_grad_def split: option.splits)
  from b [unfolded wrapped_backward_Dense_iff [OF lo lw] zero]
  obtain e' G g' where
    pre: "ebind (through_dropout (dropout La) drop_backward e)
          (\<lambda>e1. case activation La of None \<Rightarrow> Inr e1
                 | Some a \<Rightarrow> ebind (act_backward a out) (\<lambda>d. np_iop (*) e1 d)) = Inr e'"
    and G: "Dense_gradient La e' = Inr G"
    and g': "np_iop (+) (Scalar 0) G = Inr g'"
    and up: "(if (case kw of None \<Rightarrow> True | Some b \<Rightarrow> b)
          then ebind (slice_from1 (pvalue w)) (\<lambda>ws. ebind (matmul e' (np_transpose ws)) (\<lambda>u. Inr (Some u)))
          else Inr None) = Inr r"
    and L': "L' = La\<lparr>linput := None, loutput := None,
                weights := Some (w\<lparr>p_grad := Some g', p_dirty := Some True\<rparr>)\<rparr>"
    by blast
  from g' Dense_gradient_wf [OF G] have "g' = G" by (simp add: zero_plus_array)
  with L' La have "L' = L\<lparr>linput := None, loutput := None, weights := Some (w\<lparr>p_grad := Some G, p_dirty := Some True\<rparr>)\<rparr>"
    by simp
  with f lo lw pre G up show ?thesis by (rule that)
qed

text \<open>
  C2, as the code has it. Reading \<open>grad\<close> of a Parameter without a recorded gradient gives
  zero, and a backward contribution is added to the gradient that is there. Take a Dense
  layer whose weights have no gradient yet, and two calls, each a forward followed by a
  backward, that alone leave the gradients \<open>g1\<close> and \<open>g2\<close> in the weights. When \<open>g1\<close> and \<open>g2\<close>
  have the same shape, as they have for two errors given in the batched shape of the
  output, and the second call follows the first on the same layer, it returns what it
  returns alone, and the gradient of the weights is then the entrywise sum of \<open>g1\<close> and
  \<open>g2\<close>.
\<close>

theorem gradient_accumulates:
  assumes w: "weights L = Some w" and fresh: "fst (Parameter_grad w) = Scalar 0"
    and run1: "forward_backward L x1 e1 kw1 = Inr (y1, r1, L1)"
    and w1: "weights L1 = Some w1" and g1: "p_grad w1 = Some g1"
    and run2: "forward_backward L x2 e2 kw2 = Inr (y2, r2, L2)"
    and w2: "weights L2 = Some w2" and g2: "p_grad w2 = Some g2"
    and sh: "shape g1 = shape g2"
  shows "(\<forall>p. p_grad p = None \<longrightarrow> fst (Parameter_grad p) = Scalar 0)
         \<and> (\<exists>L12 w12. forward_backward L1 x2 e2 kw2 = Inr (y2, r2, L12)
              \<and> weights L12 = Some w12 \<and> p_grad w12 = Some (zip_with (+) g1 g2))"
proof
  show "\<forall>p. p_grad p = None \<longrightarrow> fst (Parameter_grad p) = Scalar 0"
    by (simp add: Parameter_grad_def)
next
  from forward_backward_Dense_fresh [OF w fresh run1]
  obtain La oa ea G1 where
    Ga: "Dense_gradient La ea = Inr G1"
    and L1: "L1 = L\<lparr>linput := None, loutput := None, weights := Some (w\<lparr>p_grad := Some G1, p_dirty := Some True\<rparr>)\<rparr>"
    by blast
  from forward_backward_Dense_fresh [OF w fresh run2]
  obtain Lb ob eb G2 where
    fb: "wrapped_forward Dense_forward L x2 = Inr (y2, Lb)"
    and lob: "loutput Lb = Some ob" and lwb: "weights Lb = Some w"
    and preb: "ebind (through_dropout (dropout Lb) drop_backward e2)
          (\<lambda>e1. case activation Lb of None \<Rightarrow> Inr e1
                 | Some a \<Rightarrow> ebind (act_backward a ob) (\<lambda>d. np_iop (*) e1 d)) = Inr eb"
    and Gb: "Dense_gradient Lb eb = Inr G2"
    and upb: "(if (case kw2 of None \<Rightarrow> True | Some b \<Rightarrow> b)
          then ebind (slice_from1 (pvalue w)) (\<lambda>ws. ebind (matmul eb (np_transpose ws)) (\<lambda>u. Inr (Some u)))
          else Inr None) = Inr r2"
    and L2: "L2 = L\<lparr>linput := None, loutput := None, weights := Some (w\<lparr>p_grad := Some G2, p_dirty := Some True\<rparr>)\<rparr>"
    by blast
  from L1 w1 g1 have w1_eq: "w1 = w\<lparr>p_grad := Some G1, p_dirty := Some True\<rparr>" and g1_eq: "g1 = G1"
    by auto
  from L2 w2 g2 have g2_eq: "g2 = G2" by auto
  have pv: "pvalue w1 = pvalue w" using w1_eq by simp
  have L1': "L1 = L\<lparr>linput := None, loutput := None, weights := Some w1\<rparr>"
    using L1 w1_eq by simp
  let ?Lc = "Lb\<lparr>weights := Some w1\<rparr>"
  have fwd: "wrapped_forward Dense_forward L1 x2 = Inr (y2, ?Lc)"
    unfolding L1' by (rule wrapped_forward_Dense_independent [OF w pv fb])
  have add: "np_iop (+) g1 G2 = Inr (zip_with (+) g1 G2)"
    using Dense_gradient_wf [OF Ga] Dense_gradient_wf [OF Gb] sh g1_eq g2_eq
    by (intro np_iop_same_shape) simp_all
  have grad: "Dense_gradient ?Lc eb = Inr G2"
    using Gb by (simp add: Dense_gradient_def split: option.splits)
  have "wrapped_backward Dense_backward ?Lc e2 kw2
        = Inr (r2, ?Lc\<lparr>linput := None, loutput := None,
                 weights := Some (w1\<lparr>p_grad := Some (zip_with (+) g1 G2), p_dirty := Some True\<rparr>)\<rparr>)"
    unfolding wrapped_backward_Dense_iff [of ?Lc ob w1, simplified, OF lob]
    using preb grad add upb g1 pv by auto
  with fwd g2_eq show "\<exists>L12 w12. forward_backward L1 x2 e2 kw2 = Inr (y2, r2, L12)
              \<and> weights L12 = Some w12 \<and> p_grad w12 = Some (zip_with (+) g1 g2)"
    by (simp add: forward_backward_def)
qed


theorem gradient_accumulates_witness:
  "weights (dense_example [[0, 0], [1, 0], [0, 1], [1, 1]] None)
     = Some \<lparr>ident = 0, pvalue = Mat 2 [[0, 0], [1, 0], [0, 1], [1, 1]], p_grad = None, p_dirty = None\<rparr>
   \<and> fst (Parameter_grad \<lparr>ident = 0, pvalue = Mat 2 [[0, 0], [1, 0], [0, 1], [1, 1]],
                           p_grad = None, p_dirty = None\<rparr>) = Scalar 0
   \<and> forward_backward (dense_example [[0, 0], [1, 0], [0, 1], [1, 1]] None)
        (Mat 3 [[1, 2, 3]]) (Mat 2 [[1, 1]]) None
      = Inr (Mat 2 [[4, 5]], Some (Mat 3 [[1, 1, 2]]),
             dense_example [[0, 0], [1, 0], [0, 1], [1, 1]]
               (Some (Mat 2 [[1, 1], [1, 1], [2, 2], [3, 3]])))
   \<and> forward_backward (dense_example [[0, 0], [1, 0], [0, 1], [1, 1]] None)
        (Mat 3 [[1, 0, 0]]) (Mat 2 [[1, 0]]) None
      = Inr (Mat 2 [[1, 0]], Some (Mat 3 [[1, 0, 1]]),
             dense_example [[0, 0], [1, 0], [0, 1], [1, 1]]
               (Some (Mat 2 [[1, 0], [1, 0], [0, 0], [0, 0]])))
   \<and> shape (Mat 2 [[1, 1], [1, 1], [2, 2], [3, 3]]) = shape (Mat 2 [[1, 0], [1, 0], [0, 0], [0, 0]])
   \<and> (\<exists>L12 w12.
         forward_backward
           (dense_example [[0, 0], [1, 0], [0, 1], [1, 1]] (Some (Mat 2 [[1, 1], [1, 1], [2, 2], [3, 3]])))
           (Mat 3 [[1, 0, 0]]) (Mat 2 [[1, 0]]) None
         = Inr (Mat 2 [[1, 0]], Some (Mat 3 [[1, 0, 1]]), L12)
         \<and> weights L12 = Some w12
         \<and> p_grad w12 = Some (Mat 2 [[2, 1], [2, 1], [2, 2], [3, 3]]))
   \<and> Mat 2 [[2, 1], [2, 1], [2, 2], [3, 3]] \<noteq> Mat 2 [[1, 0], [1, 0], [0, 0], [0, 0]]"
proof -
  let ?W = "[[0, 0], [1, 0], [0, 1], [1, 1]] :: real list list"
  let ?w = "\<lparr>ident = 0, pvalue = Mat 2 ?W, p_grad = None, p_dirty = None\<rparr>"
  let ?g1 = "Mat 2 [[1, 1], [1, 1], [2, 2], [3, 3]]"
  let ?g2 = "Mat 2 [[1, 0], [1, 0], [0, 0], [0, 0]]"
  have w: "weights (dense_example ?W None) = Some ?w"
    by (simp add: dense_example_def)
  have fresh: "fst (Parameter_grad ?w) = Scalar 0"
    by (simp add: Parameter_grad_def)
  have run1: "forward_backward (dense_example ?W None) (Mat 3 [[1, 2, 3]]) (Mat 2 [[1, 1]]) None
      = Inr (Mat 2 [[4, 5]], Some (Mat 3 [[1, 1, 2]]), dense_example ?W (Some ?g1))"
    by (simp add: forward_backward_def dense_defs array_defs dense_example_def)
  have run2: "forward_backward (dense_example ?W None) (Mat 3 [[1, 0, 0]]) (Mat 2 [[1, 0]]) None
      = Inr (Mat 2 [[1, 0]], Some (Mat 3 [[1, 0, 1]]), dense_example ?W (Some ?g2))"
    by (simp add: forward_backward_def dense_defs array_defs dense_example_def)
  have w1: "weights (dense_example ?W (Some ?g1))
      = Some \<lparr>ident = 0, pvalue = Mat 2 ?W, p_grad = Some ?g1, p_dirty = Some True\<rparr>"
    by (simp add: dense_example_def)
  have w2: "weights (dense_example ?W (Some ?g2))
      = Some \<lparr>ident = 0, pvalue = Mat 2 ?W, p_grad = Some ?g2, p_dirty = Some True\<rparr>"
    by (simp add: dense_example_def)
  have sh: "shape ?g1 = shape ?g2" by simp
  from gradient_accumulates [OF w fresh run1 w1 _ run2 w2 _ sh]
  have "\<exists>L12 w12. forward_backward (dense_example ?W (Some ?g1)) (Mat 3 [[1, 0, 0]]) (Mat 2 [[1, 0]]) None
         = Inr (Mat 2 [[1, 0]], Some (Mat 3 [[1, 0, 1]]), L12)
         \<and> weights L12 = Some w12 \<and> p_grad w12 = Some (zip_with (+) ?g1 ?g2)"
    by simp
  with w fresh run1 run2 show ?thesis by simp
qed

text \<open>
  C2, as the claim words it, fails. On the layer of size 1 an unbatched call (input
  \<open>[1,2,3]\<close>, error \<open>[2]\<close>) leaves a gradient of shape \<open>[4]\<close> and a batched call (input
  \<open>[[1,2,3]]\<close>, error \<open>[[2]]\<close>) one of shape \<open>[4, 1]\<close>; each succeeds alone, and the batched
  call after the unbatched one raises \<open>ValueError\<close> in \<open>self.weights.grad += grad\<close>: the
  gradient of the weights is not the sum of the two.
\<close>

theorem gradient_accumulates_counterexample:
  "forward_backward (dense_single [[0], [1], [0], [1]] None) (Vec [1, 2, 3]) (Vec [2]) None
   = Inr (Vec [4], Some (Vec [2, 0, 2]),
          dense_single [[0], [1], [0], [1]] (Some (Vec [2, 2, 4, 6])))
   \<and> forward_backward (dense_single [[0], [1], [0], [1]] None) (Mat 3 [[1, 2, 3]]) (Mat 1 [[2]]) None
     = Inr (Mat 1 [[4]], Some (Mat 3 [[2, 0, 2]]),
            dense_single [[0], [1], [0], [1]] (Some (Mat 1 [[2], [2], [4], [6]])))
   \<and> forward_backward (dense_single [[0], [1], [0], [1]] (Some (Vec [2, 2, 4, 6])))
       (Mat 3 [[1, 2, 3]]) (Mat 1 [[2]]) None
     = Inl ValueError"
  by (simp add: forward_backward_def dense_defs array_defs dense_single_def)

section \<open>Shapes and batching of a Dense layer\<close>
















lemma Dense_built_cache [simp]:
  "Dense_built (L\<lparr>linput := a, loutput := b\<rparr>) d s = Dense_built L d s"
  by (simp add: Dense_built_def)

lemma post_cache [simp]:
  "post_shape_preserving (L\<lparr>linput := a, loutput := b\<rparr>) = post_shape_preserving L"
  by (simp add: post_shape_preserving_def)











section \<open>The first step of Adam\<close>


















end
